theory Spec2Isabelle
  imports Main "HOL-Library.Word" "HOL-Library.Multiset" "HOL-Library.AList"
begin

section \<open>Common vocabulary\<close>

text \<open>
  Errors of the Go code are values. The four sentinel errors that \<open>pkg/ssh/ssh.go\<close>
  returns keep their names. \<open>ErrEOF\<close> is \<open>io.EOF\<close>; \<open>ErrSyntax\<close> and \<open>ErrRange\<close> are
  the two errors of \<open>strconv\<close>; \<open>ErrClosedPipe\<close> is a write on a pipe whose peer is
  gone; \<open>ErrNotFound\<close> is the not-found answer of the cluster API;
  \<open>ErrPodControlledByJobNotFound\<close> is the sentinel the watcher tests for; \<open>ErrWrap\<close> is
  an error wrapped with a message by \<open>fmt.Errorf\<close>; \<open>ErrOther\<close> carries the message of
  any other error (transport, key parsing, cluster API).
\<close>

datatype error =
    ErrInvalidUsername
  | ErrInvalidAuth
  | ErrSSHInvalidMessageLength
  | ErrTimeout
  | ErrEOF
  | ErrSyntax
  | ErrRange
  | ErrClosedPipe
  | ErrNotFound
  | ErrPodControlledByJobNotFound
  | ErrWrap string error
  | ErrOther string

text \<open>
  A call of the Go code returns, panics (nil dereference, close of a closed channel) or
  blocks forever (a lock that is never released).
\<close>

datatype 'a outcome = Done 'a | Panics | Blocks

subsection \<open>Formatting verbs of \<open>fmt\<close>\<close>

definition digit_char :: "nat \<Rightarrow> char" where
  "digit_char d = char_of (48 + d)"

fun utoa :: "nat \<Rightarrow> nat \<Rightarrow> string" where
  "utoa b n = (if b < 2 \<or> n < b then [digit_char n] else utoa b (n div b) @ [digit_char (n mod b)])"

declare utoa.simps [simp del]

text \<open>\<open>%d\<close> of a Go \<open>int\<close>.\<close>

definition itoa :: "int \<Rightarrow> string" where
  "itoa i = (if i < 0 then CHR ''-'' # utoa 10 (nat (- i)) else utoa 10 (nat i))"

text \<open>\<open>%#o\<close> of an unsigned integer: octal with a leading zero, and \<open>0\<close> for zero.\<close>

definition sharp_o :: "nat \<Rightarrow> string" where
  "sharp_o n = (if n = 0 then ''0'' else CHR ''0'' # utoa 8 n)"

section \<open>The remote execution client (\<open>pkg/ssh/ssh.go\<close>)\<close>

subsection \<open>Data\<close>

record Credentials =
  SSHUser :: string
  SSHPassword :: string
  SSHPrivateKey :: string

record Options =
  KeepAlive :: int
  Pty :: bool

text \<open>
  \<open>cssh.AuthMethod\<close> is an interface value: the password method, the public-key method
  built from a parsed signer, or nil.
\<close>

datatype AuthMethod = Password string | PublicKeys string | NilAuth

record ClientConfig =
  User :: string
  Auth :: "AuthMethod list"

text \<open>A \<open>chan bool\<close> lives in the store of the world; a field of channel type holds its
  address, or \<open>None\<close> for the nil channel.\<close>

record chan =
  buf :: "bool list"
  cap :: nat
  closed :: bool

record SSHClient =
  Creds :: Credentials
  IP :: string
  Port :: int
  Opts :: Options
  cryptoClient :: "nat option"
  close :: "nat option"

text \<open>
  The world outside the client: a clock in nanoseconds, the calls made to \<open>dial\<close> so far
  (network, address, configuration), the channel store with its next free address, the
  package-level \<open>closeMutex\<close> and the number of keepalive tasks started.
\<close>

record World =
  clock :: int
  dialed :: "(string \<times> string \<times> ClientConfig) list"
  chans :: "nat \<Rightarrow> chan option"
  next_chan :: nat
  closeMutex :: bool
  keepAlives :: nat

text \<open>
  \<open>dial\<close> and \<open>readPrivateKey\<close> are package variables of the source (the tests replace
  them), so they are parameters here. \<open>dial_ns\<close> is the time one call of \<open>dial\<close> takes.
\<close>

record Env =
  dial :: "string \<Rightarrow> string \<Rightarrow> ClientConfig \<Rightarrow> error + nat option"
  readPrivateKey :: "string \<Rightarrow> error + AuthMethod"
  dial_ns :: nat

definition sshPort :: int where
  "sshPort = 22"

definition PasswordAuth :: string where
  "PasswordAuth = ''password''"

definition KeyAuth :: string where
  "KeyAuth = ''key''"

definition Second :: int where
  "Second = 1000000000"

subsection \<open>Validate and Connect\<close>

definition Validate :: "SSHClient \<Rightarrow> error option" where
  "Validate client =
     (if SSHUser (Creds client) = [] then Some ErrInvalidUsername
      else if SSHPassword (Creds client) = [] \<and> SSHPrivateKey (Creds client) = [] then Some ErrInvalidAuth
      else None)"

definition getAuth :: "Env \<Rightarrow> Credentials \<Rightarrow> string \<Rightarrow> error + AuthMethod" where
  "getAuth env c authType =
     (if authType = PasswordAuth then Inr (Password (SSHPassword c))
      else if authType = KeyAuth then readPrivateKey env (SSHPrivateKey c)
      else Inr NilAuth)"

text \<open>The two-armed \<open>if\<close> of \<open>Connect\<close> that fills the local \<open>auth\<close> (nil at first).\<close>

definition select_auth :: "Env \<Rightarrow> SSHClient \<Rightarrow> error + AuthMethod" where
  "select_auth env client =
     (if SSHPrivateKey (Creds client) \<noteq> [] then getAuth env (Creds client) KeyAuth
      else if SSHPassword (Creds client) \<noteq> [] then getAuth env (Creds client) PasswordAuth
      else Inr NilAuth)"

definition dial_addr :: "SSHClient \<Rightarrow> string" where
  "dial_addr client =
     IP client @ '':'' @ itoa (if Port client \<noteq> 0 then Port client else sshPort)"

text \<open>\<open>make(chan bool, 1)\<close>.\<close>

definition make_chan :: "World \<Rightarrow> nat \<times> World" where
  "make_chan w =
     (next_chan w,
      w\<lparr>chans := (chans w)(next_chan w \<mapsto> \<lparr>buf = [], cap = 1, closed = False\<rparr>),
        next_chan := Suc (next_chan w)\<rparr>)"

text \<open>
  The tail of \<open>Connect\<close> after a successful dial: store the handle, take \<open>closeMutex\<close>
  (released again on return), make the close channel when the field is nil, start the
  keepalive task when the interval is positive.
\<close>

definition connect_finish :: "World \<Rightarrow> SSHClient \<Rightarrow> nat option \<Rightarrow> (error option \<times> World \<times> SSHClient) outcome" where
  "connect_finish w client c =
     (let client1 = client\<lparr>cryptoClient := c\<rparr> in
      if closeMutex w then Blocks
      else
        let (w1, client2) =
              (case close client1 of
                 None \<Rightarrow> (let (a, w') = make_chan w in (w', client1\<lparr>close := Some a\<rparr>))
               | Some a \<Rightarrow> (w, client1));
            w2 = (if KeepAlive (Opts client2) > 0 then w1\<lparr>keepAlives := Suc (keepAlives w1)\<rparr> else w1)
        in Done (None, w2, client2))"

definition Connect :: "Env \<Rightarrow> World \<Rightarrow> SSHClient \<Rightarrow> (error option \<times> World \<times> SSHClient) outcome" where
  "Connect env w client =
     (case Validate client of
        Some err \<Rightarrow> Done (Some err, w, client)
      | None \<Rightarrow>
          (case select_auth env client of
             Inl err \<Rightarrow> Done (Some err, w, client)
           | Inr auth \<Rightarrow>
               (let config = \<lparr>User = SSHUser (Creds client), Auth = [auth]\<rparr>;
                    addr = dial_addr client;
                    w1 = w\<lparr>clock := clock w + int (dial_ns env),
                           dialed := dialed w @ [(''tcp'', addr, config)]\<rparr>
                in case dial env ''tcp'' addr config of
                     Inl err \<Rightarrow> Done (Some err, w1, client)
                   | Inr c \<Rightarrow> connect_finish w1 client c)))"

subsection \<open>Disconnect\<close>

text \<open>
  A receive in a \<open>select\<close> with a \<open>default\<close> arm is ready when the channel is closed
  or holds a buffered value; on the nil channel it is never ready.
\<close>

definition recv_ready :: "World \<Rightarrow> nat option \<Rightarrow> bool" where
  "recv_ready w ch =
     (case ch of
        None \<Rightarrow> False
      | Some a \<Rightarrow> (case chans w a of None \<Rightarrow> False | Some c \<Rightarrow> buf c \<noteq> [] \<or> closed c))"

definition recv :: "World \<Rightarrow> nat \<Rightarrow> World" where
  "recv w a =
     (case chans w a of
        None \<Rightarrow> w
      | Some c \<Rightarrow> w\<lparr>chans := (chans w)(a \<mapsto> c\<lparr>buf := tl (buf c)\<rparr>)\<rparr>)"

text \<open>\<open>close(ch)\<close> panics on the nil channel and on a closed channel.\<close>

definition close_chan :: "World \<Rightarrow> nat option \<Rightarrow> World outcome" where
  "close_chan w ch =
     (case ch of
        None \<Rightarrow> Panics
      | Some a \<Rightarrow>
          (case chans w a of
             None \<Rightarrow> Panics
           | Some c \<Rightarrow> if closed c then Panics else Done (w\<lparr>chans := (chans w)(a \<mapsto> c\<lparr>closed := True\<rparr>)\<rparr>)))"

definition Disconnect :: "World \<Rightarrow> SSHClient \<Rightarrow> (World \<times> SSHClient) outcome" where
  "Disconnect w client =
     (if recv_ready w (close client) then Done (recv w (the (close client)), client)
      else if closeMutex w then Blocks
      else if close client \<noteq> None then
        (case close_chan w (close client) of
           Done w1 \<Rightarrow> Done (w1, client\<lparr>close := None\<rparr>)
         | Panics \<Rightarrow> Panics
         | Blocks \<Rightarrow> Blocks)
      else Done (w, client))"

subsection \<open>Library functions the copy protocol uses\<close>

text \<open>\<open>strings.Split\<close> with a one-byte separator: one more field than separators.\<close>

fun Split :: "char \<Rightarrow> string \<Rightarrow> string list" where
  "Split sep [] = [[]]"
| "Split sep (c # cs) =
     (if c = sep then [] # Split sep cs
      else (case Split sep cs of [] \<Rightarrow> [[c]] | f # fs \<Rightarrow> (c # f) # fs))"

text \<open>
  \<open>bufio.Reader.ReadString\<close> on a stream that ends: the bytes up to and including the
  first delimiter, or everything read and \<open>io.EOF\<close> when there is none. The second
  component is what stays in the reader.
\<close>

definition ReadString :: "char \<Rightarrow> string \<Rightarrow> (string \<times> error option) \<times> string" where
  "ReadString delim bs =
     (case dropWhile (\<lambda>c. c \<noteq> delim) bs of
        [] \<Rightarrow> ((bs, Some ErrEOF), [])
      | d # rest \<Rightarrow> ((takeWhile (\<lambda>c. c \<noteq> delim) bs @ [d], None), rest))"

text \<open>
  \<open>strconv.ParseInt(s, 10, 64)\<close>: an optional sign, then \<open>ParseUint\<close> on the rest, whose
  loop rejects every byte that is not a decimal digit and reports overflow of 64 bits.
\<close>

definition is_digit :: "char \<Rightarrow> bool" where
  "is_digit c = (48 \<le> (of_char c :: nat) \<and> (of_char c :: nat) \<le> 57)"

definition maxUint64 :: nat where
  "maxUint64 = 2 ^ 64 - 1"

fun ParseUint_loop :: "nat \<Rightarrow> string \<Rightarrow> error + nat" where
  "ParseUint_loop n [] = Inr n"
| "ParseUint_loop n (c # cs) =
     (if \<not> is_digit c then Inl ErrSyntax
      else if n \<ge> maxUint64 div 10 + 1 then Inl ErrRange
      else if n * 10 + (of_char c - 48) > maxUint64 then Inl ErrRange
      else ParseUint_loop (n * 10 + (of_char c - 48)) cs)"

definition ParseUint :: "string \<Rightarrow> error + nat" where
  "ParseUint s = (if s = [] then Inl ErrSyntax else ParseUint_loop 0 s)"

definition ParseInt :: "string \<Rightarrow> error + int" where
  "ParseInt s =
     (if s = [] then Inl ErrSyntax
      else
        let neg = (hd s = CHR ''-'');
            s1 = (if hd s = CHR ''+'' \<or> hd s = CHR ''-'' then tl s else s)
        in case ParseUint s1 of
             Inl err \<Rightarrow> Inl err
           | Inr un \<Rightarrow>
               if \<not> neg \<and> un \<ge> 2 ^ 63 then Inl ErrRange
               else if neg \<and> un > 2 ^ 63 then Inl ErrRange
               else Inr (if neg then - int un else int un))"

text \<open>
  \<open>path.Base\<close>: the last element of the path, trailing slashes removed first; \<open>.\<close> for
  the empty path and \<open>/\<close> for a path of slashes only.
\<close>

definition Base :: "string \<Rightarrow> string" where
  "Base p =
     (if p = [] then ''.''
      else
        let p1 = rev (dropWhile (\<lambda>c. c = CHR ''/'') (rev p));
            p2 = rev (takeWhile (\<lambda>c. c \<noteq> CHR ''/'') (rev p1))
        in if p2 = [] then ''/'' else p2)"

text \<open>
  An \<open>io.Writer\<close>: the bytes it has taken so far, and how many more it accepts before
  writes fail (\<open>None\<close>: no limit). A failing write takes what still fits.
\<close>

record writer =
  sent :: string
  room :: "nat option"

definition wr_write :: "writer \<Rightarrow> string \<Rightarrow> error option \<times> writer" where
  "wr_write w bs =
     (case room w of
        None \<Rightarrow> (None, w\<lparr>sent := sent w @ bs\<rparr>)
      | Some k \<Rightarrow>
          if length bs \<le> k then (None, w\<lparr>sent := sent w @ bs, room := Some (k - length bs)\<rparr>)
          else (Some ErrClosedPipe, w\<lparr>sent := sent w @ take k bs, room := Some 0\<rparr>))"

text \<open>
  \<open>io.CopyN(dst, src, n)\<close>: nothing and no error for \<open>n \<le> 0\<close>; otherwise the next
  \<open>n\<close> bytes, with \<open>io.EOF\<close> when the stream ends before that. The second component is
  what stays in the reader.
\<close>

definition CopyN :: "writer \<Rightarrow> string \<Rightarrow> int \<Rightarrow> (error option \<times> writer) \<times> string" where
  "CopyN dst src n =
     (if n \<le> 0 then ((None, dst), src)
      else
        let chunk = take (nat n) src;
            (werr, dst1) = wr_write dst chunk
        in case werr of
             Some err \<Rightarrow> ((Some err, dst1), drop (nat n) src)
           | None \<Rightarrow> ((if length src < nat n then Some ErrEOF else None, dst1), drop (nat n) src))"

subsection \<open>Upload and Download: the tasks that touch the byte streams\<close>

text \<open>
  The writer task of \<open>Upload\<close>, on the session's standard-input pipe \<open>w\<close>: the header
  (\<open>Fprintf\<close>, whose error is dropped), the content (\<open>io.Copy\<close>, whose error ends the
  task), one NUL. \<open>Upload\<close> calls it with \<open>remoteFileName = path.Base(dst)\<close>.
\<close>

definition Upload_writer :: "writer \<Rightarrow> 32 word \<Rightarrow> string \<Rightarrow> string \<Rightarrow> error option \<times> writer" where
  "Upload_writer w mode fileContent remoteFileName =
     (let (_, w1) = wr_write w (''C'' @ sharp_o (unat mode) @ '' '' @ itoa (int (length fileContent))
                                   @ '' '' @ remoteFileName @ [CHR 0x0A]);
          (err, w2) = wr_write w1 fileContent
      in case err of
           Some e \<Rightarrow> (Some e, w2)
         | None \<Rightarrow> (let (_, w3) = wr_write w2 [CHR 0x00] in (None, w3)))"

text \<open>
  The reader task of \<open>Download\<close>, on the bytes the session's standard-output pipe
  delivers: the error it sends to the error channel (if any) and the destination writer
  afterwards.
\<close>

definition Download_reader :: "writer \<Rightarrow> string \<Rightarrow> error option \<times> writer" where
  "Download_reader dst dataPipe =
     (case ReadString (CHR 0x0A) dataPipe of
        ((s, Some err), dr) \<Rightarrow> (Some err, dst)
      | ((s, None), dr) \<Rightarrow>
          (let scpMsgs = Split (CHR '' '') s in
           if length scpMsgs \<noteq> 3 \<or> length (scpMsgs ! 0) \<noteq> 5 \<or> hd (scpMsgs ! 0) \<noteq> CHR ''C''
           then (Some ErrSSHInvalidMessageLength, dst)
           else (case ParseInt (scpMsgs ! 1) of
                   Inl err \<Rightarrow> (Some err, dst)
                 | Inr len \<Rightarrow> fst (CopyN dst dr len))))"

definition new_writer :: writer where
  "new_writer = \<lparr>sent = [], room = None\<rparr>"


text \<open>
  The close field of a client is nil or the address of an open channel with an empty
  buffer. The source never sends on the channel and \<open>Disconnect\<close> sets the field to
  nil right after closing, so every client the code builds is in this shape.
\<close>

definition chan_ok :: "World \<Rightarrow> SSHClient \<Rightarrow> bool" where
  "chan_ok w client =
     (case close client of
        None \<Rightarrow> True
      | Some a \<Rightarrow> (case chans w a of None \<Rightarrow> False | Some c \<Rightarrow> buf c = [] \<and> \<not> closed c))"

subsection \<open>WaitForSSH\<close>





subsection \<open>A concrete client, as the tests build it\<close>

definition ex_env :: Env where
  "ex_env = \<lparr>dial = (\<lambda>_ _ _. Inr None), readPrivateKey = (\<lambda>k. Inr (PublicKeys k)), dial_ns = 0\<rparr>"

definition ex_world :: World where
  "ex_world = \<lparr>clock = 0, dialed = [], chans = Map.empty, next_chan = 0, closeMutex = False, keepAlives = 0\<rparr>"

definition ex_client :: SSHClient where
  "ex_client = \<lparr>Creds = \<lparr>SSHUser = ''test'', SSHPassword = ''test'', SSHPrivateKey = ''/foo''\<rparr>,
      IP = ''10.0.0.7'', Port = 0, Opts = \<lparr>KeepAlive = 0, Pty = False\<rparr>,
      cryptoClient = None, close = None\<rparr>"



section \<open>The cluster side: orchestrator and job status watcher\<close>

subsection \<open>Data\<close>

record ObjectReference =
  ref_Kind :: string
  ref_Namespace :: string
  ref_Name :: string

record ProvisionerSpec =
  UUID :: "string option"
  Run :: "string option"
  RunConfigMapRef :: "ObjectReference option"

text \<open>Of a \<open>Build\<close>, the fields \<open>Reconcile\<close> reads: namespace, name and
  \<open>Spec.Connector.Credentials.Name\<close>.\<close>

record Build =
  build_Namespace :: string
  build_Name :: string
  build_CredentialsName :: string

datatype JobConditionType = JobComplete | JobFailed | JobSuspended | JobOtherCondition string

record ContainerStateTerminated =
  ExitCode :: int
  Reason :: string
  Message :: string

record ContainerStatus =
  cs_Name :: string
  cs_Terminated :: "ContainerStateTerminated option"

record Pod =
  pod_Namespace :: string
  pod_Labels :: "(string \<times> string) list"
  InitContainerStatuses :: "ContainerStatus list"
  ContainerStatuses :: "ContainerStatus list"

text \<open>Of a \<open>batchv1.Job\<close>: its key, its labels, the types of its status conditions, and
  \<open>Spec.Selector\<close>, a pointer, with its \<open>MatchLabels\<close>.\<close>

record Job =
  job_Namespace :: string
  job_Name :: string
  job_Labels :: "(string \<times> string) list"
  job_Conditions :: "JobConditionType list"
  job_Selector :: "(string \<times> string) list option"

text \<open>Reading a Go \<open>map[string]string\<close>: the empty string for a missing key.\<close>

definition label_get :: "(string \<times> string) list \<Rightarrow> string \<Rightarrow> string" where
  "label_get m k = (case map_of m k of None \<Rightarrow> [] | Some v \<Rightarrow> v)"

text \<open>
  The cluster as the controllers see it: the jobs by (namespace, name), the pods, and
  what the watcher has sent to its sinks: the error log entries (container, message),
  the messages passed to \<open>setCache\<close>, and the failed-scans counter.
\<close>

record Cluster =
  jobs :: "string \<times> string \<Rightarrow> Job option"
  pods :: "Pod list"
  errors_logged :: "(string \<times> string) list"
  setCache_calls :: "string list"
  failed_scans_total :: nat

record ShellJobBuilder =
  b_Namespace :: string
  b_BuildNamespace :: string
  b_BuildName :: string
  b_UUID :: string
  b_Repo :: string
  b_Tag :: string
  b_SSHCredentialsSecretName :: string
  b_ScriptToRun :: "string option"

datatype ActionType = ClusterDeleteAction | OtherAction string

record Image =
  img_ID :: string
  img_Cluster :: string

datatype OperationResult = OperationResultNone | OperationResultCreated | OperationResultUpdated

record Result =
  Requeue :: bool
  RequeueAfter :: int

text \<open>
  What the source takes from code that is not part of it. \<open>new_uuid\<close> is the value of
  \<open>uuid.New()\<close>. \<open>builder_Build\<close> is \<open>Build()\<close> of the shell job builder (package
  \<open>provisioner/shell/job\<close>). \<open>getActionTypeFromJob\<close>, \<open>getContainerImageFromJob\<close>,
  \<open>cache_DeleteJob\<close> and \<open>setCache\<close> are the helpers and the cache the failure path
  calls. \<open>map_order\<close> is the order in which \<open>range\<close> visits a map. The four faults are
  the errors, other than not-found, with which the API server may answer.
\<close>

record KEnv =
  new_uuid :: string
  builder_Build :: "ShellJobBuilder \<Rightarrow> error + Job"
  getActionTypeFromJob :: "Job \<Rightarrow> error + ActionType"
  getContainerImageFromJob :: "Job \<Rightarrow> error + Image"
  cache_DeleteJob :: "string \<Rightarrow> string \<Rightarrow> error option"
  setCache :: "ActionType \<Rightarrow> Image \<Rightarrow> string \<Rightarrow> bool"
  map_order :: "(string \<times> ContainerStateTerminated) list \<Rightarrow> (string \<times> ContainerStateTerminated) list"
  get_fault :: "error option"
  create_fault :: "error option"
  list_fault :: "error option"
  delete_fault :: "error option"

definition ShellProvisionerRepo :: string where
  "ShellProvisionerRepo = ''ghcr.io/forge-build/forge-provisioner-shell''"

definition ShellProvisionerTag :: string where
  "ShellProvisionerTag = ''latest''"

definition ForgeCoreNamespace :: string where
  "ForgeCoreNamespace = ''forge-core''"

subsection \<open>The orchestrator: Reconcile\<close>

text \<open>
  \<open>controllerutil.CreateOrUpdate\<close> with a mutate function that changes nothing: get the
  object by the key of \<open>desired\<close>; when it is absent create \<open>desired\<close>; when it is
  there, the fetched object equals its own copy after the empty mutation, so nothing is
  updated and the result is \<open>OperationResultNone\<close>.
\<close>

definition CreateOrUpdate :: "KEnv \<Rightarrow> Cluster \<Rightarrow> Job \<Rightarrow> (OperationResult \<times> error option) \<times> Cluster" where
  "CreateOrUpdate env cl desired =
     (case get_fault env of
        Some err \<Rightarrow> ((OperationResultNone, Some err), cl)
      | None \<Rightarrow>
          (case jobs cl (job_Namespace desired, job_Name desired) of
             None \<Rightarrow>
               (case create_fault env of
                  Some err \<Rightarrow> ((OperationResultNone, Some err), cl)
                | None \<Rightarrow>
                    ((OperationResultCreated, None),
                     cl\<lparr>jobs := (jobs cl)((job_Namespace desired, job_Name desired) \<mapsto> desired)\<rparr>))
           | Some existing \<Rightarrow> ((OperationResultNone, None), cl)))"

definition WithScriptToRun :: "ShellJobBuilder \<Rightarrow> string \<Rightarrow> ShellJobBuilder" where
  "WithScriptToRun b script = b\<lparr>b_ScriptToRun := Some script\<rparr>"

text \<open>
  The builder after the two \<open>if\<close> statements on the script source. Both pass
  \<open>*spec.Run\<close>; in the second one \<open>spec.Run\<close> may be nil, and the dereference panics.
\<close>

definition script_source :: "ProvisionerSpec \<Rightarrow> ShellJobBuilder \<Rightarrow> ShellJobBuilder outcome" where
  "script_source spec builder =
     (let b1 = (case Run spec of Some r \<Rightarrow> WithScriptToRun builder r | None \<Rightarrow> builder) in
      case RunConfigMapRef spec of
        None \<Rightarrow> Done b1
      | Some ref \<Rightarrow> (case Run spec of Some r \<Rightarrow> Done (WithScriptToRun b1 r) | None \<Rightarrow> Panics))"

text \<open>The builder after the chain of \<open>With...\<close> calls that opens \<open>Reconcile\<close>.\<close>

definition shell_builder :: "string \<Rightarrow> Build \<Rightarrow> ShellJobBuilder" where
  "shell_builder uid build =
     \<lparr>b_Namespace = ForgeCoreNamespace,
      b_BuildNamespace = build_Namespace build,
      b_BuildName = build_Name build,
      b_UUID = uid,
      b_Repo = ShellProvisionerRepo,
      b_Tag = ShellProvisionerTag,
      b_SSHCredentialsSecretName = build_CredentialsName build,
      b_ScriptToRun = None\<rparr>"

definition no_result :: Result where
  "no_result = \<lparr>Requeue = False, RequeueAfter = 0\<rparr>"

definition Reconcile :: "KEnv \<Rightarrow> Cluster \<Rightarrow> Build \<Rightarrow> ProvisionerSpec \<Rightarrow> ((Result \<times> error option) \<times> Cluster \<times> ProvisionerSpec) outcome" where
  "Reconcile env cl build spec =
     (if UUID spec = None then
        (let uid = new_uuid env;
             builder = shell_builder uid build
         in case script_source spec builder of
              Panics \<Rightarrow> Panics
            | Blocks \<Rightarrow> Blocks
            | Done builder1 \<Rightarrow>
                (case builder_Build env builder1 of
                   Inl err \<Rightarrow> Done ((no_result, Some err), cl, spec)
                 | Inr desired \<Rightarrow>
                     (case CreateOrUpdate env cl desired of
                        ((op, Some err), cl1) \<Rightarrow> Done ((no_result, Some err), cl1, spec)
                      | ((op, None), cl1) \<Rightarrow>
                          (let spec1 = spec\<lparr>UUID := Some uid\<rparr> in
                           if op \<noteq> OperationResultNone
                           then Done ((\<lparr>Requeue = False, RequeueAfter = 2 * Second\<rparr>, None), cl1, spec1)
                           else Done ((no_result, None), cl1, spec1)))))
      else Done ((no_result, None), cl, spec))"

subsection \<open>The watcher\<close>

fun IsNotFound :: "error \<Rightarrow> bool" where
  "IsNotFound ErrNotFound = True"
| "IsNotFound (ErrWrap msg err) = IsNotFound err"
| "IsNotFound _ = False"

fun IsPodControlledByJobNotFound :: "error \<Rightarrow> bool" where
  "IsPodControlledByJobNotFound ErrPodControlledByJobNotFound = True"
| "IsPodControlledByJobNotFound (ErrWrap msg err) = IsPodControlledByJobNotFound err"
| "IsPodControlledByJobNotFound _ = False"

text \<open>\<open>Client.Delete\<close> with background propagation, and \<open>deleteJob\<close> around it.\<close>

definition client_Delete :: "KEnv \<Rightarrow> Cluster \<Rightarrow> Job \<Rightarrow> error option \<times> Cluster" where
  "client_Delete env cl job =
     (case delete_fault env of
        Some err \<Rightarrow> (Some err, cl)
      | None \<Rightarrow>
          (case jobs cl (job_Namespace job, job_Name job) of
             None \<Rightarrow> (Some ErrNotFound, cl)
           | Some j \<Rightarrow> (None, cl\<lparr>jobs := (jobs cl)((job_Namespace job, job_Name job) := None)\<rparr>)))"

definition deleteJob :: "KEnv \<Rightarrow> Cluster \<Rightarrow> Job \<Rightarrow> error option \<times> Cluster" where
  "deleteJob env cl job =
     (case client_Delete env cl job of
        (Some err, cl1) \<Rightarrow> if IsNotFound err then (None, cl1) else (Some (ErrWrap ''deleting job'' err), cl1)
      | (None, cl1) \<Rightarrow> (None, cl1))"

definition podListLookup :: "KEnv \<Rightarrow> Cluster \<Rightarrow> string \<Rightarrow> Job \<Rightarrow> (error + Pod list) outcome" where
  "podListLookup env cl namespace refreshedJob =
     (case job_Selector refreshedJob of
        None \<Rightarrow> Panics
      | Some matchLabels \<Rightarrow>
          (let key0 = ''controller-uid'';
               value0 = label_get matchLabels key0;
               matchingLabelKey = (if length value0 = 0 then ''batch.kubernetes.io/controller-uid'' else key0);
               matchingLabelValue = (if length value0 = 0 then label_get matchLabels ''batch.kubernetes.io/controller-uid'' else value0)
           in case list_fault env of
                Some err \<Rightarrow> Done (Inl err)
              | None \<Rightarrow>
                  Done (Inr (filter (\<lambda>p. pod_Namespace p = namespace \<and>
                                          map_of (pod_Labels p) matchingLabelKey = Some matchingLabelValue)
                                    (pods cl)))))"

definition getPodByJob :: "KEnv \<Rightarrow> Cluster \<Rightarrow> Job \<Rightarrow> (error + Pod option) outcome" where
  "getPodByJob env cl job =
     (case get_fault env of
        Some err \<Rightarrow> Done (Inl err)
      | None \<Rightarrow>
          (case jobs cl (job_Namespace job, job_Name job) of
             None \<Rightarrow> Done (Inl ErrNotFound)
           | Some refreshedJob \<Rightarrow>
               (case podListLookup env cl (job_Namespace job) refreshedJob of
                  Panics \<Rightarrow> Panics
                | Blocks \<Rightarrow> Blocks
                | Done (Inl err) \<Rightarrow> Done (Inl err)
                | Done (Inr items) \<Rightarrow>
                    (case items of [] \<Rightarrow> Done (Inr None) | p # ps \<Rightarrow> Done (Inr (Some p))))))"

text \<open>
  The map from container name to terminated state, as an association list with one
  entry per name: a later status of the same name replaces the earlier one.
\<close>

definition record_terminated :: "ContainerStatus \<Rightarrow> (string \<times> ContainerStateTerminated) list \<Rightarrow> (string \<times> ContainerStateTerminated) list" where
  "record_terminated status states =
     (case cs_Terminated status of
        None \<Rightarrow> states
      | Some t \<Rightarrow> AList.update (cs_Name status) t states)"

definition GetTerminatedContainersStatusesByPod :: "Pod option \<Rightarrow> (string \<times> ContainerStateTerminated) list" where
  "GetTerminatedContainersStatusesByPod pod =
     (case pod of
        None \<Rightarrow> []
      | Some p \<Rightarrow> fold record_terminated (ContainerStatuses p) (fold record_terminated (InitContainerStatuses p) []))"

definition GetTerminatedContainersStatusesByJob ::
  "KEnv \<Rightarrow> Cluster \<Rightarrow> Job \<Rightarrow> ((error + (string \<times> ContainerStateTerminated) list) \<times> Cluster) outcome" where
  "GetTerminatedContainersStatusesByJob env cl job =
     (case getPodByJob env cl job of
        Panics \<Rightarrow> Panics
      | Blocks \<Rightarrow> Blocks
      | Done (Inl err) \<Rightarrow>
          if IsNotFound err then Done (Inl err, cl)
          else if IsPodControlledByJobNotFound err then
            (case deleteJob env cl job of
               (Some derr, cl1) \<Rightarrow> Done (Inl derr, cl1)
             | (None, cl1) \<Rightarrow> Done (Inr [], cl1))
          else Done (Inl (ErrWrap ''unknown issue'' err), cl)
      | Done (Inr pod) \<Rightarrow> Done (Inr (GetTerminatedContainersStatusesByPod pod), cl))"

definition failure_message :: "ContainerStateTerminated \<Rightarrow> string" where
  "failure_message status =
     ''scanjob failed with reason: '' @ Reason status @ '' and message: '' @ Message status"

text \<open>
  The \<open>for\<close> loop of \<open>processFailedScanJob\<close> over the statuses in the order given:
  \<open>False\<close> when \<open>setCache\<close> refused and the function returns from inside the loop.
\<close>

fun report_failures :: "KEnv \<Rightarrow> ActionType \<Rightarrow> Image \<Rightarrow> (string \<times> ContainerStateTerminated) list \<Rightarrow> Cluster \<Rightarrow> bool \<times> Cluster" where
  "report_failures env actionType img [] cl = (True, cl)"
| "report_failures env actionType img ((container, status) # rest) cl =
     (if ExitCode status = 0 then report_failures env actionType img rest cl
      else
        let errorMsg = failure_message status;
            cl1 = cl\<lparr>errors_logged := errors_logged cl @ [(container, errorMsg)]\<rparr>;
            cl2 = cl1\<lparr>setCache_calls := setCache_calls cl1 @ [errorMsg]\<rparr>
        in if setCache env actionType img errorMsg then report_failures env actionType img rest cl2
           else (False, cl2))"

definition IncrementFailedScansTotal :: "Cluster \<Rightarrow> Cluster" where
  "IncrementFailedScansTotal cl = cl\<lparr>failed_scans_total := Suc (failed_scans_total cl)\<rparr>"

definition processFailedScanJob :: "KEnv \<Rightarrow> Cluster \<Rightarrow> Job \<Rightarrow> (error option \<times> Cluster) outcome" where
  "processFailedScanJob env cl job =
     (case getActionTypeFromJob env job of
        Inl err \<Rightarrow> Done (Some err, cl)
      | Inr actionType \<Rightarrow>
          (case getContainerImageFromJob env job of
             Inl err \<Rightarrow> Done (Some err, cl)
           | Inr img \<Rightarrow>
               if actionType = ClusterDeleteAction
               then Done (deleteJob env (IncrementFailedScansTotal cl) job)
               else
                 (case GetTerminatedContainersStatusesByJob env cl job of
                    Panics \<Rightarrow> Panics
                  | Blocks \<Rightarrow> Blocks
                  | Done (Inl err, cl1) \<Rightarrow> Done (Some err, cl1)
                  | Done (Inr statuses, cl1) \<Rightarrow>
                      (case cache_DeleteJob env (img_ID img) (img_Cluster img) of
                         Some err \<Rightarrow> Done (Some (ErrOther ''cannot decrease number of running jobs''), cl1)
                       | None \<Rightarrow>
                           (case report_failures env actionType img (map_order env statuses) cl1 of
                              (False, cl2) \<Rightarrow> Done (Some (ErrOther ''cannot set cache when job is failed''), cl2)
                            | (True, cl2) \<Rightarrow> Done (deleteJob env (IncrementFailedScansTotal cl2) job))))))"

definition processCompleteScanJob :: "KEnv \<Rightarrow> Cluster \<Rightarrow> Job \<Rightarrow> (error option \<times> Cluster) outcome" where
  "processCompleteScanJob env cl job = Done (deleteJob env cl job)"

text \<open>The reconcile function of the watcher, for the request \<open>(namespace, name)\<close>.\<close>

definition reconcileJobs :: "KEnv \<Rightarrow> Cluster \<Rightarrow> string \<times> string \<Rightarrow> (error option \<times> Cluster) outcome" where
  "reconcileJobs env cl req =
     (case get_fault env of
        Some err \<Rightarrow>
          if IsNotFound err then Done (None, cl) else Done (Some (ErrWrap ''getting job from cache'' err), cl)
      | None \<Rightarrow>
          (case jobs cl req of
             None \<Rightarrow> Done (None, cl)
           | Some job \<Rightarrow>
               (case job_Conditions job of
                  [] \<Rightarrow> Done (None, cl)
                | jobCondition # others \<Rightarrow>
                    (case jobCondition of
                       JobComplete \<Rightarrow> processCompleteScanJob env cl job
                     | JobFailed \<Rightarrow> processFailedScanJob env cl job
                     | JobSuspended \<Rightarrow> Done (Some (ErrOther ''unrecognized scan job condition''), cl)
                     | JobOtherCondition t \<Rightarrow> Done (Some (ErrOther ''unrecognized scan job condition''), cl)))))"

subsection \<open>A concrete cluster\<close>

text \<open>
  A builder that names the job after the build, helpers that succeed, a cache that
  accepts everything, no API fault, and \<open>range\<close> visiting a map in insertion order.
\<close>

definition ex_Build :: "ShellJobBuilder \<Rightarrow> error + Job" where
  "ex_Build b =
     Inr \<lparr>job_Namespace = b_Namespace b, job_Name = b_BuildName b @ ''-shell'',
          job_Labels = [(''forge.build/build-name'', b_BuildName b), (''forge.build/provisioner-id'', b_UUID b)],
          job_Conditions = [], job_Selector = None\<rparr>"

definition ex_kenv :: KEnv where
  "ex_kenv =
     \<lparr>new_uuid = ''0b0f4d3e-7a55-4c1e-9a51-3f0f6f1f2a10'',
      builder_Build = ex_Build,
      getActionTypeFromJob = (\<lambda>j. Inr (OtherAction ''shell'')),
      getContainerImageFromJob = (\<lambda>j. Inr \<lparr>img_ID = ''img'', img_Cluster = ''local''\<rparr>),
      cache_DeleteJob = (\<lambda>i c. None),
      setCache = (\<lambda>a i m. True),
      map_order = (\<lambda>m. m),
      get_fault = None, create_fault = None, list_fault = None, delete_fault = None\<rparr>"

definition ex_build :: Build where
  "ex_build = \<lparr>build_Namespace = ''default'', build_Name = ''ubuntu'', build_CredentialsName = ''ssh-creds''\<rparr>"

definition ex_spec_inline :: ProvisionerSpec where
  "ex_spec_inline = \<lparr>UUID = None, Run = Some ''apt-get update'', RunConfigMapRef = None\<rparr>"

definition ex_spec_ref :: ProvisionerSpec where
  "ex_spec_ref = \<lparr>UUID = None, Run = None,
                   RunConfigMapRef = Some \<lparr>ref_Kind = ''ConfigMap'', ref_Namespace = ''default'', ref_Name = ''setup-script''\<rparr>\<rparr>"

definition ex_failed_job :: Job where
  "ex_failed_job =
     \<lparr>job_Namespace = ''forge-core'', job_Name = ''ubuntu-shell'',
      job_Labels = [(''forge.build/build-name'', ''ubuntu''), (''forge.build/provisioner-id'', ''u-1'')],
      job_Conditions = [JobFailed], job_Selector = Some [(''controller-uid'', ''c-1'')]\<rparr>"

definition ex_pod :: "int \<Rightarrow> Pod" where
  "ex_pod code =
     \<lparr>pod_Namespace = ''forge-core'', pod_Labels = [(''controller-uid'', ''c-1'')],
      InitContainerStatuses = [\<lparr>cs_Name = ''init'', cs_Terminated = Some \<lparr>ExitCode = 0, Reason = ''Completed'', Message = []\<rparr>\<rparr>],
      ContainerStatuses = [\<lparr>cs_Name = ''shell'', cs_Terminated = Some \<lparr>ExitCode = code, Reason = ''Error'', Message = ''boom''\<rparr>\<rparr>]\<rparr>"

definition ex_cluster :: "int \<Rightarrow> Cluster" where
  "ex_cluster code =
     \<lparr>jobs = [(''forge-core'', ''ubuntu-shell'') \<mapsto> ex_failed_job], pods = [ex_pod code],
      errors_logged = [], setCache_calls = [], failed_scans_total = 0\<rparr>"

definition empty_cluster :: Cluster where
  "empty_cluster = \<lparr>jobs = Map.empty, pods = [], errors_logged = [], setCache_calls = [], failed_scans_total = 0\<rparr>"


text \<open>The terminated statuses of a list of container statuses, by name, in order.\<close>

definition terminated_of :: "ContainerStatus list \<Rightarrow> (string \<times> ContainerStateTerminated) list" where
  "terminated_of ss = concat (map (\<lambda>s. case cs_Terminated s of None \<Rightarrow> [] | Some t \<Rightarrow> [(cs_Name s, t)]) ss)"


section \<open>Properties of the remote execution client\<close>

subsection \<open>Connect\<close>

lemma connect_finish_Done:
  "\<not> closeMutex w \<Longrightarrow>
   \<exists>w' c'. connect_finish w client c = Done (None, w', c') \<and> dialed w' = dialed w \<and> clock w' = clock w \<and> \<not> closeMutex w'"
  by (auto simp: connect_finish_def make_chan_def Let_def split: option.splits)

lemma Connect_reaches_dial:
  assumes "Validate client = None" "select_auth env client = Inr a"
  shows "Connect env w client =
     (let config = \<lparr>User = SSHUser (Creds client), Auth = [a]\<rparr>;
          w1 = w\<lparr>clock := clock w + int (dial_ns env),
                 dialed := dialed w @ [(''tcp'', dial_addr client, config)]\<rparr>
      in case dial env ''tcp'' (dial_addr client) config of
           Inl err \<Rightarrow> Done (Some err, w1, client)
         | Inr c \<Rightarrow> connect_finish w1 client c)"
  using assms by (simp add: Connect_def Let_def)

lemma Connect_dialed:
  assumes "Validate client = None" "select_auth env client = Inr a" "\<not> closeMutex w"
  shows "\<exists>e w' c'. Connect env w client = Done (e, w', c') \<and>
           dialed w' = dialed w @ [(''tcp'', dial_addr client, \<lparr>User = SSHUser (Creds client), Auth = [a]\<rparr>)]"
proof -
  let ?cfg = "\<lparr>User = SSHUser (Creds client), Auth = [a]\<rparr>"
  let ?w1 = "w\<lparr>clock := clock w + int (dial_ns env), dialed := dialed w @ [(''tcp'', dial_addr client, ?cfg)]\<rparr>"
  show ?thesis
  proof (cases "dial env ''tcp'' (dial_addr client) ?cfg")
    case (Inl err)
    then show ?thesis using Connect_reaches_dial [OF assms(1,2), of w] by (simp add: Let_def)
  next
    case (Inr c)
    have "\<not> closeMutex ?w1" using assms(3) by simp
    from connect_finish_Done [OF this, of client c] Inr show ?thesis
      using Connect_reaches_dial [OF assms(1,2), of w] by (auto simp: Let_def)
  qed
qed

lemmas ex_defs = Connect_def ex_env_def ex_world_def ex_client_def Validate_def select_auth_def
  getAuth_def KeyAuth_def PasswordAuth_def connect_finish_def make_chan_def Let_def

lemma ex_addr: "dial_addr ex_client = ''10.0.0.7:22''"
  by code_simp

text \<open>
  C6. \<open>Connect\<close> runs \<open>Validate\<close> first: when it fails, its error is returned and
  the world is untouched, so \<open>dial\<close> was not called. Otherwise exactly one method is
  chosen: the private key whenever it is set (a key that does not parse is an error, the
  password is not tried), the password only when the key is empty; the one call of
  \<open>dial\<close> carries a configuration whose \<open>Auth\<close> list is that single method. The
  package mutex is taken to be free, as it is whenever no other call is in progress.
\<close>

theorem Connect_validates_then_picks_one_auth:
  assumes "\<not> closeMutex w"
  shows "case Validate client of
           Some err \<Rightarrow> Connect env w client = Done (Some err, w, client)
         | None \<Rightarrow>
            (case (if SSHPrivateKey (Creds client) \<noteq> []
                   then readPrivateKey env (SSHPrivateKey (Creds client))
                   else Inr (Password (SSHPassword (Creds client)))) of
               Inl e \<Rightarrow> Connect env w client = Done (Some e, w, client)
             | Inr a \<Rightarrow>
                 (\<exists>e w' c'. Connect env w client = Done (e, w', c') \<and>
                    dialed w' = dialed w @
                      [(''tcp'', dial_addr client, \<lparr>User = SSHUser (Creds client), Auth = [a]\<rparr>)]))"
proof (cases "Validate client")
  case (Some err)
  then show ?thesis by (simp add: Connect_def)
next
  case None
  let ?chosen = "if SSHPrivateKey (Creds client) \<noteq> []
                   then readPrivateKey env (SSHPrivateKey (Creds client))
                   else Inr (Password (SSHPassword (Creds client)))"
  have sel: "select_auth env client = ?chosen"
    using None by (auto simp: select_auth_def getAuth_def Validate_def KeyAuth_def PasswordAuth_def split: if_splits)
  show ?thesis
  proof (cases ?chosen)
    case (Inl e)
    then show ?thesis using None sel by (simp add: Connect_def)
  next
    case (Inr a)
    with sel have "select_auth env client = Inr a" by simp
    from Connect_dialed [OF None this assms] show ?thesis using None Inr by simp
  qed
qed

theorem Connect_validates_then_picks_one_auth_witness:
  "\<not> closeMutex ex_world \<and>
   (\<exists>e w' c'. Connect ex_env ex_world ex_client = Done (e, w', c') \<and>
      dialed w' = [(''tcp'', ''10.0.0.7:22'', \<lparr>User = ''test'', Auth = [PublicKeys ''/foo'']\<rparr>)])"
proof -
  have m: "\<not> closeMutex ex_world" by (simp add: ex_world_def)
  have v: "Validate ex_client = None" by (simp add: Validate_def ex_client_def)
  have k: "SSHPrivateKey (Creds ex_client) = ''/foo''" "SSHUser (Creds ex_client) = ''test''"
    by (simp_all add: ex_client_def)
  have r: "readPrivateKey ex_env ''/foo'' = Inr (PublicKeys ''/foo'')" by (simp add: ex_env_def)
  have d: "dialed ex_world = []" by (simp add: ex_world_def)
  from Connect_validates_then_picks_one_auth [OF m, where client = ex_client and env = ex_env] m
  show ?thesis by (simp add: v k r d ex_addr)
qed

text \<open>
  C10. When \<open>Connect\<close> gets as far as the dial (the credentials validate and the
  authentication method is built), the address it dials is the client's IP, a colon
  and the port in decimal: 22 when the \<open>Port\<close> field is 0, the field itself otherwise.
\<close>

theorem Connect_port_default:
  assumes "Validate client = None" "select_auth env client = Inr a" "\<not> closeMutex w"
  shows "\<exists>e w' c'. Connect env w client = Done (e, w', c') \<and>
           dialed w' = dialed w @
             [(''tcp'', IP client @ '':'' @ (if Port client = 0 then ''22'' else itoa (Port client)),
               \<lparr>User = SSHUser (Creds client), Auth = [a]\<rparr>)]"
proof -
  have "itoa sshPort = ''22''" by code_simp
  then have "dial_addr client = IP client @ '':'' @ (if Port client = 0 then ''22'' else itoa (Port client))"
    by (simp add: dial_addr_def)
  with Connect_dialed [OF assms] show ?thesis by simp
qed

theorem Connect_port_default_witness:
  "Validate (ex_client\<lparr>Port := 2222\<rparr>) = None \<and>
   select_auth ex_env (ex_client\<lparr>Port := 2222\<rparr>) = Inr (PublicKeys ''/foo'') \<and>
   \<not> closeMutex ex_world \<and>
   (\<exists>e w' c'. Connect ex_env ex_world ex_client = Done (e, w', c') \<and>
      dialed w' = [(''tcp'', ''10.0.0.7:22'', \<lparr>User = ''test'', Auth = [PublicKeys ''/foo'']\<rparr>)]) \<and>
   (\<exists>e w' c'. Connect ex_env ex_world (ex_client\<lparr>Port := 2222\<rparr>) = Done (e, w', c') \<and>
      dialed w' = [(''tcp'', ''10.0.0.7:2222'', \<lparr>User = ''test'', Auth = [PublicKeys ''/foo'']\<rparr>)])"
proof -
  have m: "\<not> closeMutex ex_world" and d: "dialed ex_world = []" by (simp_all add: ex_world_def)
  have v: "Validate ex_client = None" "Validate (ex_client\<lparr>Port := 2222\<rparr>) = None"
    by (simp_all add: Validate_def ex_client_def)
  have s: "select_auth ex_env ex_client = Inr (PublicKeys ''/foo'')"
      "select_auth ex_env (ex_client\<lparr>Port := 2222\<rparr>) = Inr (PublicKeys ''/foo'')"
    by (simp_all add: select_auth_def getAuth_def KeyAuth_def PasswordAuth_def ex_client_def ex_env_def)
  have p: "itoa 2222 = ''2222''" by code_simp
  have f: "IP ex_client = ''10.0.0.7''" "Port ex_client = 0" "SSHUser (Creds ex_client) = ''test''"
    by (simp_all add: ex_client_def)
  from Connect_port_default [OF v(1) s(1) m] Connect_port_default [OF v(2) s(2) m] v s m
  show ?thesis by (simp add: d p f)
qed

subsection \<open>Disconnect\<close>

lemma Connect_gives_open_chan:
  assumes "chan_ok w0 c0" "Connect env w0 c0 = Done (None, w, c)"
  shows "\<not> closeMutex w \<and> (\<exists>a ch. close c = Some a \<and> chans w a = Some ch \<and> buf ch = [] \<and> \<not> closed ch)"
  using assms
  by (auto simp: Connect_def connect_finish_def make_chan_def Let_def chan_ok_def
      split: option.splits sum.splits if_splits)

lemma Disconnect_open:
  assumes "\<not> closeMutex w" "close c = Some a" "chans w a = Some ch" "buf ch = []" "\<not> closed ch"
  shows "Disconnect w c = Done (w\<lparr>chans := (chans w)(a \<mapsto> ch\<lparr>closed := True\<rparr>)\<rparr>, c\<lparr>close := None\<rparr>)"
  using assms by (simp add: Disconnect_def recv_ready_def close_chan_def)

lemma Disconnect_nil:
  assumes "\<not> closeMutex w" "close c = None"
  shows "Disconnect w c = Done (w, c)"
  using assms by (simp add: Disconnect_def recv_ready_def)

text \<open>
  C9. After a successful \<open>Connect\<close>, the first \<open>Disconnect\<close> returns (it closes the
  channel and sets the field to nil), and a second \<open>Disconnect\<close> right after it
  returns too, without a panic, without blocking, and leaves world and client as they
  were: the receive on the nil channel is never ready, the default arm finds the field
  nil and does nothing.
\<close>

theorem Disconnect_twice:
  assumes "chan_ok w0 c0" "Connect env w0 c0 = Done (None, w, c)"
  shows "\<exists>w1 c1. Disconnect w c = Done (w1, c1) \<and> close c1 = None \<and> Disconnect w1 c1 = Done (w1, c1)"
proof -
  from Connect_gives_open_chan [OF assms] obtain a ch where
    m: "\<not> closeMutex w" and a: "close c = Some a" "chans w a = Some ch" "buf ch = []" "\<not> closed ch"
    by blast
  let ?w1 = "w\<lparr>chans := (chans w)(a \<mapsto> ch\<lparr>closed := True\<rparr>)\<rparr>"
  let ?c1 = "c\<lparr>close := None\<rparr>"
  have 1: "Disconnect w c = Done (?w1, ?c1)" by (rule Disconnect_open [OF m a])
  have 2: "Disconnect ?w1 ?c1 = Done (?w1, ?c1)" using m by (simp add: Disconnect_nil)
  from 1 2 show ?thesis by auto
qed

theorem Disconnect_twice_witness:
  "chan_ok ex_world ex_client \<and>
   (\<exists>w c. Connect ex_env ex_world ex_client = Done (None, w, c) \<and>
      (\<exists>w1 c1. Disconnect w c = Done (w1, c1) \<and> close c1 = None \<and> Disconnect w1 c1 = Done (w1, c1)))"
proof -
  have ok: "chan_ok ex_world ex_client" by (simp add: chan_ok_def ex_client_def)
  obtain w c where con: "Connect ex_env ex_world ex_client = Done (None, w, c)"
    by (simp add: ex_defs)
  from Disconnect_twice [OF ok con] ok con show ?thesis by blast
qed

section \<open>Properties of the copy protocol\<close>

lemma utoa_small: "n < b \<Longrightarrow> utoa b n = [digit_char n]"
  by (simp add: utoa.simps)

lemma utoa_step: "2 \<le> b \<Longrightarrow> b \<le> n \<Longrightarrow> utoa b n = utoa b (n div b) @ [digit_char (n mod b)]"
  by (subst utoa.simps) simp

lemma digit_char_simps:
  "digit_char 0 = CHR ''0''" "digit_char 1 = CHR ''1''" "digit_char 2 = CHR ''2''"
  "digit_char 3 = CHR ''3''" "digit_char 4 = CHR ''4''" "digit_char 5 = CHR ''5''"
  "digit_char 6 = CHR ''6''" "digit_char 7 = CHR ''7''" "digit_char 8 = CHR ''8''"
  "digit_char 9 = CHR ''9''" "digit_char (Suc 0) = CHR ''1''"
  by code_simp+

lemmas eval_defs = Download_reader_def ReadString_def ParseInt_def ParseUint_def is_digit_def Let_def
  maxUint64_def CopyN_def wr_write_def new_writer_def Upload_writer_def sharp_o_def itoa_def Base_def
  utoa_small utoa_step digit_char_simps


lemma digit_char_is_digit: "d < 10 \<Longrightarrow> is_digit (digit_char d)"
  by (simp add: is_digit_def digit_char_def)

lemma digit_char_val: "d < 10 \<Longrightarrow> (of_char (digit_char d) :: nat) - 48 = d"
  by (simp add: digit_char_def)

lemma is_digit_not_sep: "is_digit c \<Longrightarrow> c \<noteq> CHR '' '' \<and> c \<noteq> CHR 0x0A \<and> c \<noteq> CHR ''+'' \<and> c \<noteq> CHR ''-''"
  by (auto simp: is_digit_def)

lemma utoa10_digits: "c \<in> set (utoa 10 n) \<Longrightarrow> is_digit c"
proof (induction "10::nat" n arbitrary: c rule: utoa.induct)
  case (1 n)
  show ?case
  proof (cases "n < 10")
    case True
    with 1(2) show ?thesis by (simp add: utoa_small digit_char_is_digit)
  next
    case False
    then have "utoa 10 n = utoa 10 (n div 10) @ [digit_char (n mod 10)]" by (simp add: utoa_step)
    with 1 False show ?thesis by (auto simp: digit_char_is_digit)
  qed
qed

lemma utoa10_nonempty: "utoa 10 n \<noteq> []"
  by (subst utoa.simps) simp

lemma ParseUint_loop_append:
  "ParseUint_loop n (s @ [c]) = (case ParseUint_loop n s of Inl e \<Rightarrow> Inl e | Inr m \<Rightarrow> ParseUint_loop m [c])"
  by (induction s arbitrary: n) auto

lemma ParseUint_loop_digit:
  assumes "d < 10" "m * 10 + d < 2 ^ 64"
  shows "ParseUint_loop m [digit_char d] = Inr (m * 10 + d)"
proof -
  have "m < maxUint64 div 10 + 1" using assms by (simp add: maxUint64_def)
  moreover have "\<not> m * 10 + d > maxUint64" using assms by (simp add: maxUint64_def)
  ultimately show ?thesis
    using assms(1) by (simp add: digit_char_is_digit digit_char_val)
qed

lemma ParseUint_loop_utoa: "n < 2 ^ 64 \<Longrightarrow> ParseUint_loop 0 (utoa 10 n) = Inr n"
proof (induction "10::nat" n rule: utoa.induct)
  case (1 n)
  show ?case
  proof (cases "n < 10")
    case True
    with ParseUint_loop_digit [of n 0] 1(2) show ?thesis by (simp add: utoa_small)
  next
    case False
    then have u: "utoa 10 n = utoa 10 (n div 10) @ [digit_char (n mod 10)]" by (simp add: utoa_step)
    have "n div 10 < 2 ^ 64" using 1(2) by simp
    with 1(1) False have ih: "ParseUint_loop 0 (utoa 10 (n div 10)) = Inr (n div 10)" by simp
    have "ParseUint_loop (n div 10) [digit_char (n mod 10)] = Inr (n div 10 * 10 + n mod 10)"
      using 1(2) by (intro ParseUint_loop_digit) simp_all
    with ih u show ?thesis by (simp add: ParseUint_loop_append)
  qed
qed

lemma ParseInt_itoa:
  assumes "n < 2 ^ 63"
  shows "ParseInt (itoa (int n)) = Inr (int n)"
proof -
  have d: "is_digit (hd (utoa 10 n))" using utoa10_digits [of "hd (utoa 10 n)" n] utoa10_nonempty [of n] by simp
  have "n < 2 ^ 64" using assms by simp
  then have "ParseUint (utoa 10 n) = Inr n" by (simp add: ParseUint_def utoa10_nonempty ParseUint_loop_utoa)
  with is_digit_not_sep [OF d] assms show ?thesis
    by (simp add: ParseInt_def itoa_def utoa10_nonempty Let_def)
qed

lemma Split_no_sep: "sep \<notin> set a \<Longrightarrow> Split sep a = [a]"
  by (induction a) auto

lemma Split_field: "sep \<notin> set a \<Longrightarrow> Split sep (a @ sep # r) = a # Split sep r"
  by (induction a) auto

lemma ReadString_line: "d \<notin> set h \<Longrightarrow> ReadString d (h @ d # rest) = ((h @ [d], None), rest)"
proof -
  assume a: "d \<notin> set h"
  then have "dropWhile (\<lambda>c. c \<noteq> d) (h @ d # rest) = d # rest"
    by (induction h) auto
  moreover from a have "takeWhile (\<lambda>c. c \<noteq> d) (h @ d # rest) = h"
    by (induction h) auto
  ultimately show ?thesis by (simp add: ReadString_def)
qed

lemma CopyN_exact:
  "room dst = None \<Longrightarrow> CopyN dst (X @ r) (int (length X)) = ((None, dst\<lparr>sent := sent dst @ X\<rparr>), r)"
  by (cases "X = []") (auto simp: CopyN_def wr_write_def Let_def)

lemma sharp_o_0644: "sharp_o 420 = ''0644''"
  by (simp add: sharp_o_def utoa_small utoa_step digit_char_simps)

lemma Upload_writer_sent:
  assumes "room w = None"
  shows "Upload_writer w mode X name =
           (None, w\<lparr>sent := sent w @ ''C'' @ sharp_o (unat mode) @ '' '' @ itoa (int (length X))
                                  @ '' '' @ name @ [CHR 0x0A] @ X @ [CHR 0x00]\<rparr>)"
  using assms by (simp add: Upload_writer_def wr_write_def)

lemma Download_reader_parsed:
  assumes "ReadString (CHR 0x0A) dataPipe = ((s, None), dr)" "Split (CHR '' '') s = [f0, f1, f2]"
    "length f0 = 5" "hd f0 = CHR ''C''" "ParseInt f1 = Inr len"
  shows "Download_reader dst dataPipe = fst (CopyN dst dr len)"
  using assms by (simp add: Download_reader_def)

lemma Download_reader_header:
  assumes "CHR '' '' \<notin> set name" "CHR 0x0A \<notin> set name" "length X < 2 ^ 63" "room dst = None"
  shows "Download_reader dst (''C0644 '' @ itoa (int (length X)) @ '' '' @ name @ [CHR 0x0A] @ X @ r)
           = (None, dst\<lparr>sent := sent dst @ X\<rparr>)"
proof -
  let ?len = "itoa (int (length X))"
  let ?h = "''C0644 '' @ ?len @ '' '' @ name"
  have len: "?len = utoa 10 (length X)" by (simp add: itoa_def)
  have nl: "CHR 0x0A \<notin> set ?h"
    using assms(2) utoa10_digits [of "CHR 0x0A" "length X"] is_digit_not_sep [of "CHR 0x0A"] by (auto simp: len)
  have sp: "CHR '' '' \<notin> set ?len"
    using utoa10_digits [of "CHR '' ''" "length X"] is_digit_not_sep [of "CHR '' ''"] by (auto simp: len)
  have rs: "ReadString (CHR 0x0A) (?h @ CHR 0x0A # X @ r) = ((?h @ [CHR 0x0A], None), X @ r)"
    by (rule ReadString_line [OF nl])
  have "Split (CHR '' '') (''C0644'' @ CHR '' '' # ?len @ CHR '' '' # name @ [CHR 0x0A])
          = ''C0644'' # Split (CHR '' '') (?len @ CHR '' '' # name @ [CHR 0x0A])"
    by (rule Split_field) simp
  also have "Split (CHR '' '') (?len @ CHR '' '' # name @ [CHR 0x0A]) = ?len # Split (CHR '' '') (name @ [CHR 0x0A])"
    by (rule Split_field [OF sp])
  also have "Split (CHR '' '') (name @ [CHR 0x0A]) = [name @ [CHR 0x0A]]"
    using assms(1) by (intro Split_no_sep) simp
  finally have split: "Split (CHR '' '') (?h @ [CHR 0x0A]) = [''C0644'', ?len, name @ [CHR 0x0A]]" by simp
  have pi: "ParseInt ?len = Inr (int (length X))" by (rule ParseInt_itoa [OF assms(3)])
  have cp: "CopyN dst (X @ r) (int (length X)) = ((None, dst\<lparr>sent := sent dst @ X\<rparr>), r)"
    by (rule CopyN_exact [OF assms(4)])
  have "Download_reader dst (?h @ CHR 0x0A # X @ r) = fst (CopyN dst (X @ r) (int (length X)))"
    by (rule Download_reader_parsed [OF rs split _ _ pi]) simp_all
  then show ?thesis by (simp add: cp)
qed


text \<open>
  C1, as stated, fails for a destination whose last path element holds a space: the
  header \<open>Upload\<close> writes then splits into four fields, and the reader of \<open>Download\<close>
  rejects it without writing a byte.
\<close>

theorem Upload_Download_roundtrip_counterexample:
  "Upload_writer new_writer 420 ''hi'' (Base ''/tmp/my file'')
     = (None, new_writer\<lparr>sent := ''C0644 2 my file'' @ [CHR 0x0A] @ ''hi'' @ [CHR 0x00]\<rparr>) \<and>
   Download_reader new_writer (''C0644 2 my file'' @ [CHR 0x0A] @ ''hi'' @ [CHR 0x00])
     = (Some ErrSSHInvalidMessageLength, new_writer)"
  by (simp add: eval_defs)

text \<open>
  C1, amended. For content \<open>X\<close> (shorter than \<open>2^63\<close> bytes, the range of the Go
  \<open>int\<close> that \<open>len\<close> returns), mode 0644 (decimal 420) and a destination path \<open>P\<close> whose
  last element holds neither a space nor a newline: the writer task of \<open>Upload\<close> puts
  on the pipe the header \<open>C0644 <length> <basename>\<close> and a newline, then \<open>X\<close>, then
  one NUL; the reader of \<open>Download\<close>, fed these bytes, accepts the header, whose mode
  field is the \<open>C0644\<close> that was written, and writes exactly \<open>X\<close> to the destination.
\<close>

theorem Upload_Download_roundtrip:
  assumes "CHR '' '' \<notin> set (Base P)" "CHR 0x0A \<notin> set (Base P)" "length X < 2 ^ 63"
  shows "Upload_writer new_writer 420 X (Base P)
           = (None, new_writer\<lparr>sent := ''C0644 '' @ itoa (int (length X)) @ '' '' @ Base P @ [CHR 0x0A]
                                          @ X @ [CHR 0x00]\<rparr>) \<and>
         Download_reader new_writer
             (''C0644 '' @ itoa (int (length X)) @ '' '' @ Base P @ [CHR 0x0A] @ X @ [CHR 0x00])
           = (None, new_writer\<lparr>sent := X\<rparr>)"
proof -
  have r: "room new_writer = None" and s: "sent new_writer = []" by (simp_all add: new_writer_def)
  have "Upload_writer new_writer 420 X (Base P)
          = (None, new_writer\<lparr>sent := sent new_writer @ ''C'' @ sharp_o (unat (420 :: 32 word)) @ '' ''
               @ itoa (int (length X)) @ '' '' @ Base P @ [CHR 0x0A] @ X @ [CHR 0x00]\<rparr>)"
    by (rule Upload_writer_sent [OF r])
  then have up: "Upload_writer new_writer 420 X (Base P)
          = (None, new_writer\<lparr>sent := ''C0644 '' @ itoa (int (length X)) @ '' '' @ Base P @ [CHR 0x0A]
                                          @ X @ [CHR 0x00]\<rparr>)"
    by (simp add: sharp_o_0644 s)
  have "Download_reader new_writer
             (''C0644 '' @ itoa (int (length X)) @ '' '' @ Base P @ [CHR 0x0A] @ X @ [CHR 0x00])
           = (None, new_writer\<lparr>sent := sent new_writer @ X\<rparr>)"
    by (rule Download_reader_header [OF assms r])
  with up show ?thesis by (simp add: s)
qed

theorem Upload_Download_roundtrip_witness:
  "CHR '' '' \<notin> set (Base ''/etc/motd'') \<and> CHR 0x0A \<notin> set (Base ''/etc/motd'') \<and>
   length ''hello world'' < (2::nat) ^ 63 \<and>
   Upload_writer new_writer 420 ''hello world'' (Base ''/etc/motd'')
     = (None, new_writer\<lparr>sent := ''C0644 11 motd'' @ [CHR 0x0A] @ ''hello world'' @ [CHR 0x00]\<rparr>) \<and>
   Download_reader new_writer (''C0644 11 motd'' @ [CHR 0x0A] @ ''hello world'' @ [CHR 0x00])
     = (None, new_writer\<lparr>sent := ''hello world''\<rparr>)"
proof -
  have b: "Base ''/etc/motd'' = ''motd''" by (simp add: Base_def)
  have l: "itoa 11 = ''11''"
    by (simp add: itoa_def utoa_small utoa_step digit_char_simps)
  have h: "CHR '' '' \<notin> set (Base ''/etc/motd'')" "CHR 0x0A \<notin> set (Base ''/etc/motd'')"
    "length ''hello world'' < (2::nat) ^ 63" by (simp_all add: b)
  from Upload_Download_roundtrip [OF h] h show ?thesis by (simp add: b l)
qed

text \<open>
  C4, as stated, fails on the third header: a length field that is not a number passes
  the shape check, and the reader sends the syntax error of \<open>strconv.ParseInt\<close>, not
  \<open>ErrSSHInvalidMessageLength\<close>.
\<close>

theorem Download_nonnumeric_length_counterexample:
  "Download_reader new_writer (''C0644 abc f'' @ [CHR 0x0A]) = (Some ErrSyntax, new_writer) \<and>
   fst (Download_reader new_writer (''C0644 abc f'' @ [CHR 0x0A])) \<noteq> Some ErrSSHInvalidMessageLength"
  by (simp add: eval_defs)

lemma ParseUint_loop_errors: "ParseUint_loop n s = Inl e \<Longrightarrow> e = ErrSyntax \<or> e = ErrRange"
  by (induction s arbitrary: n) (auto split: if_splits)

lemma ParseInt_errors: "ParseInt s = Inl e \<Longrightarrow> e = ErrSyntax \<or> e = ErrRange"
  by (auto simp: ParseInt_def ParseUint_def Let_def split: if_splits sum.splits
      dest: ParseUint_loop_errors)

lemma ParseUint_loop_rejects: "\<exists>c\<in>set s. \<not> is_digit c \<Longrightarrow> \<exists>e. ParseUint_loop n s = Inl e"
  by (induction s arbitrary: n) auto

lemma ParseInt_rejects:
  assumes "\<exists>c\<in>set s. \<not> is_digit c \<and> c \<noteq> CHR ''+'' \<and> c \<noteq> CHR ''-''"
  shows "\<exists>e. ParseInt s = Inl e"
proof -
  from assms obtain c where c: "c \<in> set s" "\<not> is_digit c" "c \<noteq> CHR ''+''" "c \<noteq> CHR ''-''" by blast
  then have ne: "s \<noteq> []" by auto
  let ?s1 = "if hd s = CHR ''+'' \<or> hd s = CHR ''-'' then tl s else s"
  have "c \<in> set ?s1" using c ne by (cases s) auto
  then have bad: "\<exists>c\<in>set ?s1. \<not> is_digit c" and ne1: "?s1 \<noteq> []" using c(2) by auto
  from ParseUint_loop_rejects [OF bad, of 0] obtain e where "ParseUint_loop 0 ?s1 = Inl e" by blast
  with ne1 have "ParseUint ?s1 = Inl e" by (simp add: ParseUint_def)
  with ne show ?thesis by (simp add: ParseInt_def Let_def)
qed

lemma Download_reader_line:
  assumes "CHR 0x0A \<notin> set h"
  shows "Download_reader dst (h @ CHR 0x0A # rest) =
           (let scpMsgs = Split (CHR '' '') (h @ [CHR 0x0A]) in
            if length scpMsgs \<noteq> 3 \<or> length (scpMsgs ! 0) \<noteq> 5 \<or> hd (scpMsgs ! 0) \<noteq> CHR ''C''
            then (Some ErrSSHInvalidMessageLength, dst)
            else (case ParseInt (scpMsgs ! 1) of
                    Inl err \<Rightarrow> (Some err, dst)
                  | Inr len \<Rightarrow> fst (CopyN dst rest len)))"
  using ReadString_line [OF assms, of rest] by (simp add: Download_reader_def)

text \<open>
  C4, amended. Take any header line (bytes without a newline, then the newline),
  whatever follows it and whatever the destination; the reader of \<open>Download\<close> decides
  on the line alone and writes nothing. A line that does not split into exactly three
  fields at its spaces (two fields, for one), a line whose first field is not five bytes
  long, and a line whose first field does not begin with \<open>C\<close> each give
  \<open>ErrSSHInvalidMessageLength\<close>. A line of the right shape whose second field
  \<open>strconv.ParseInt\<close> rejects gives the error of \<open>ParseInt\<close>, which is its syntax
  error or its range error and never \<open>ErrSSHInvalidMessageLength\<close>; and \<open>ParseInt\<close>
  rejects every field that holds a byte which is neither a decimal digit nor a sign.
\<close>

theorem Download_malformed_headers:
  fixes h rest :: string and dst :: writer and e :: error
  assumes "CHR 0x0A \<notin> set h"
  defines "scpMsgs \<equiv> Split (CHR '' '') (h @ [CHR 0x0A])"
  shows "(length scpMsgs \<noteq> 3 \<longrightarrow>
            Download_reader dst (h @ [CHR 0x0A] @ rest) = (Some ErrSSHInvalidMessageLength, dst)) \<and>
         (length (scpMsgs ! 0) \<noteq> 5 \<longrightarrow>
            Download_reader dst (h @ [CHR 0x0A] @ rest) = (Some ErrSSHInvalidMessageLength, dst)) \<and>
         ((\<forall>t. scpMsgs ! 0 \<noteq> CHR ''C'' # t) \<longrightarrow>
            Download_reader dst (h @ [CHR 0x0A] @ rest) = (Some ErrSSHInvalidMessageLength, dst)) \<and>
         (length scpMsgs = 3 \<and> length (scpMsgs ! 0) = 5 \<and> hd (scpMsgs ! 0) = CHR ''C'' \<and>
          ParseInt (scpMsgs ! 1) = Inl e \<longrightarrow>
            Download_reader dst (h @ [CHR 0x0A] @ rest) = (Some e, dst) \<and> (e = ErrSyntax \<or> e = ErrRange)) \<and>
         ((\<exists>c\<in>set (scpMsgs ! 1). \<not> is_digit c \<and> c \<noteq> CHR ''+'' \<and> c \<noteq> CHR ''-'') \<longrightarrow>
            (\<exists>e'. ParseInt (scpMsgs ! 1) = Inl e'))"
proof -
  note line = Download_reader_line [OF assms(1), of dst rest, folded scpMsgs_def]
  have a: "length scpMsgs \<noteq> 3 \<longrightarrow>
            Download_reader dst (h @ [CHR 0x0A] @ rest) = (Some ErrSSHInvalidMessageLength, dst)"
    by (simp add: line Let_def)
  have b: "length (scpMsgs ! 0) \<noteq> 5 \<longrightarrow>
            Download_reader dst (h @ [CHR 0x0A] @ rest) = (Some ErrSSHInvalidMessageLength, dst)"
    by (simp add: line Let_def)
  have c: "(\<forall>t. scpMsgs ! 0 \<noteq> CHR ''C'' # t) \<longrightarrow>
            Download_reader dst (h @ [CHR 0x0A] @ rest) = (Some ErrSSHInvalidMessageLength, dst)"
  proof
    assume n: "\<forall>t. scpMsgs ! 0 \<noteq> CHR ''C'' # t"
    have "length (scpMsgs ! 0) \<noteq> 5 \<or> hd (scpMsgs ! 0) \<noteq> CHR ''C''"
    proof (cases "scpMsgs ! 0")
      case Nil
      then show ?thesis by simp
    next
      case (Cons x xs)
      with n have "x \<noteq> CHR ''C''" by auto
      with Cons show ?thesis by simp
    qed
    then show "Download_reader dst (h @ [CHR 0x0A] @ rest) = (Some ErrSSHInvalidMessageLength, dst)"
      by (auto simp: line Let_def)
  qed
  have d: "length scpMsgs = 3 \<and> length (scpMsgs ! 0) = 5 \<and> hd (scpMsgs ! 0) = CHR ''C'' \<and>
          ParseInt (scpMsgs ! 1) = Inl e \<longrightarrow>
            Download_reader dst (h @ [CHR 0x0A] @ rest) = (Some e, dst) \<and> (e = ErrSyntax \<or> e = ErrRange)"
    using ParseInt_errors [of "scpMsgs ! 1" e] by (simp add: line Let_def)
  have f: "(\<exists>c\<in>set (scpMsgs ! 1). \<not> is_digit c \<and> c \<noteq> CHR ''+'' \<and> c \<noteq> CHR ''-'') \<longrightarrow>
            (\<exists>e'. ParseInt (scpMsgs ! 1) = Inl e')"
    using ParseInt_rejects [of "scpMsgs ! 1"] by blast
  from a b c d f show ?thesis by blast
qed

theorem Download_malformed_headers_witness:
  "CHR 0x0A \<notin> set ''C644 10'' \<and> CHR 0x0A \<notin> set ''X0644 10 f'' \<and> CHR 0x0A \<notin> set ''C0644 abc f'' \<and>
   length (Split (CHR '' '') (''C644 10'' @ [CHR 0x0A])) = 2 \<and>
   Download_reader new_writer (''C644 10'' @ [CHR 0x0A] @ ''payload'') = (Some ErrSSHInvalidMessageLength, new_writer) \<and>
   Split (CHR '' '') (''X0644 10 f'' @ [CHR 0x0A]) ! 0 = ''X0644'' \<and>
   Download_reader new_writer (''X0644 10 f'' @ [CHR 0x0A] @ ''payload'') = (Some ErrSSHInvalidMessageLength, new_writer) \<and>
   Split (CHR '' '') (''C0644 abc f'' @ [CHR 0x0A]) = [''C0644'', ''abc'', ''f'' @ [CHR 0x0A]] \<and>
   ParseInt ''abc'' = Inl ErrSyntax \<and>
   Download_reader new_writer (''C0644 abc f'' @ [CHR 0x0A] @ ''payload'') = (Some ErrSyntax, new_writer)"
proof -
  have n: "CHR 0x0A \<notin> set ''C644 10''" "CHR 0x0A \<notin> set ''X0644 10 f''" "CHR 0x0A \<notin> set ''C0644 abc f''"
    by simp_all
  have s1: "Split (CHR '' '') (''C644 10'' @ [CHR 0x0A]) = [''C644'', ''10'' @ [CHR 0x0A]]"
    and s2: "Split (CHR '' '') (''X0644 10 f'' @ [CHR 0x0A]) = [''X0644'', ''10'', ''f'' @ [CHR 0x0A]]"
    and s3: "Split (CHR '' '') (''C0644 abc f'' @ [CHR 0x0A]) = [''C0644'', ''abc'', ''f'' @ [CHR 0x0A]]"
    by simp_all
  have p: "ParseInt ''abc'' = Inl ErrSyntax"
    by (simp add: ParseInt_def ParseUint_def is_digit_def Let_def)
  have 1: "Download_reader new_writer (''C644 10'' @ [CHR 0x0A] @ ''payload'') = (Some ErrSSHInvalidMessageLength, new_writer)"
    using Download_malformed_headers [OF n(1), of new_writer "''payload''"] by (simp only: s1) simp
  have 2: "Download_reader new_writer (''X0644 10 f'' @ [CHR 0x0A] @ ''payload'') = (Some ErrSSHInvalidMessageLength, new_writer)"
    using Download_malformed_headers [OF n(2), of new_writer "''payload''"] by (simp only: s2) simp
  have 3: "Download_reader new_writer (''C0644 abc f'' @ [CHR 0x0A] @ ''payload'') = (Some ErrSyntax, new_writer)"
    using Download_malformed_headers [OF n(3), of new_writer "''payload''" ErrSyntax] by (simp only: s3) (simp add: p)
  from n s1 s2 s3 p 1 2 3 show ?thesis by simp
qed

section \<open>Properties of the reachability probe\<close>








section \<open>Properties of the orchestrator\<close>

text \<open>
  C3. When the correlation id of the spec is already set, \<open>Reconcile\<close> returns the empty
  result and no error, and leaves the cluster and the spec as they were: nothing is
  created or updated, and the id is unchanged.
\<close>

theorem Reconcile_id_set_no_action:
  assumes "UUID spec = Some u"
  shows "Reconcile env cl build spec = Done ((no_result, None), cl, spec)"
  using assms by (simp add: Reconcile_def)

theorem Reconcile_id_set_no_action_witness:
  "UUID (ex_spec_inline\<lparr>UUID := Some ''u-1''\<rparr>) = Some ''u-1'' \<and>
   Reconcile ex_kenv (ex_cluster 7) ex_build (ex_spec_inline\<lparr>UUID := Some ''u-1''\<rparr>)
     = Done ((no_result, None), ex_cluster 7, ex_spec_inline\<lparr>UUID := Some ''u-1''\<rparr>)"
proof -
  have u: "UUID (ex_spec_inline\<lparr>UUID := Some ''u-1''\<rparr>) = Some ''u-1''" by simp
  from Reconcile_id_set_no_action [OF u] u show ?thesis by blast
qed

text \<open>
  C7. The claim is right and the code misses it: with an external script reference and
  no inline script, the branch for the reference dereferences the nil \<open>spec.Run\<close>, so
  \<open>Reconcile\<close> panics before any descriptor is built.
\<close>

theorem Reconcile_script_reference_panics:
  assumes "UUID spec = None" "Run spec = None" "RunConfigMapRef spec = Some ref"
  shows "Reconcile env cl build spec = Panics"
  using assms by (simp add: Reconcile_def script_source_def Let_def)

theorem Reconcile_script_reference_panics_witness:
  "UUID ex_spec_ref = None \<and> Run ex_spec_ref = None \<and>
   RunConfigMapRef ex_spec_ref = Some \<lparr>ref_Kind = ''ConfigMap'', ref_Namespace = ''default'', ref_Name = ''setup-script''\<rparr> \<and>
   Reconcile ex_kenv empty_cluster ex_build ex_spec_ref = Panics"
proof -
  have h: "UUID ex_spec_ref = None" "Run ex_spec_ref = None"
    "RunConfigMapRef ex_spec_ref = Some \<lparr>ref_Kind = ''ConfigMap'', ref_Namespace = ''default'', ref_Name = ''setup-script''\<rparr>"
    by (simp_all add: ex_spec_ref_def)
  from Reconcile_script_reference_panics [OF h] h show ?thesis by blast
qed

text \<open>
  C8, as stated, fails when the job the descriptor names is already in the cluster: the
  apply succeeds with \<open>OperationResultNone\<close>, the id is written back, and the result
  carries no requeue delay.
\<close>

theorem Reconcile_requeue_counterexample:
  "Reconcile ex_kenv (ex_cluster 7) ex_build ex_spec_inline
     = Done ((\<lparr>Requeue = False, RequeueAfter = 0\<rparr>, None), ex_cluster 7,
             ex_spec_inline\<lparr>UUID := Some ''0b0f4d3e-7a55-4c1e-9a51-3f0f6f1f2a10''\<rparr>)"
  by (simp add: Reconcile_def script_source_def WithScriptToRun_def shell_builder_def ex_kenv_def
      ex_Build_def ex_build_def ex_spec_inline_def ex_cluster_def CreateOrUpdate_def no_result_def
      ForgeCoreNamespace_def Let_def)

text \<open>
  C8, amended. With an unset correlation id, a descriptor that builds and an apply that
  succeeds, the new id is written back onto the spec; the delay of 2 seconds is
  requested when the apply created the job, and no delay when the job was already there
  and the apply left it alone.
\<close>

theorem Reconcile_apply_succeeds:
  assumes "UUID spec = None"
    "script_source spec (shell_builder (new_uuid env) build) = Done b"
    "builder_Build env b = Inr desired"
    "CreateOrUpdate env cl desired = ((op, None), cl1)"
  shows "Reconcile env cl build spec
           = Done ((\<lparr>Requeue = False, RequeueAfter = (if op = OperationResultNone then 0 else 2 * Second)\<rparr>, None),
                   cl1, spec\<lparr>UUID := Some (new_uuid env)\<rparr>) \<and>
         (op = OperationResultNone) = (jobs cl (job_Namespace desired, job_Name desired) \<noteq> None)"
proof -
  have "Reconcile env cl build spec
           = Done ((\<lparr>Requeue = False, RequeueAfter = (if op = OperationResultNone then 0 else 2 * Second)\<rparr>, None),
                   cl1, spec\<lparr>UUID := Some (new_uuid env)\<rparr>)"
    using assms by (simp add: Reconcile_def Let_def no_result_def)
  moreover have "(op = OperationResultNone) = (jobs cl (job_Namespace desired, job_Name desired) \<noteq> None)"
    using assms(4) by (auto simp: CreateOrUpdate_def split: option.splits)
  ultimately show ?thesis by blast
qed

theorem Reconcile_apply_succeeds_witness:
  "UUID ex_spec_inline = None \<and>
   (\<exists>cl1. Reconcile ex_kenv empty_cluster ex_build ex_spec_inline
            = Done ((\<lparr>Requeue = False, RequeueAfter = 2 * Second\<rparr>, None), cl1,
                    ex_spec_inline\<lparr>UUID := Some (new_uuid ex_kenv)\<rparr>) \<and>
          jobs cl1 (''forge-core'', ''ubuntu-shell'') \<noteq> None)"
proof -
  let ?b = "WithScriptToRun (shell_builder (new_uuid ex_kenv) ex_build) ''apt-get update''"
  have h1: "UUID ex_spec_inline = None" by (simp add: ex_spec_inline_def)
  have h2: "script_source ex_spec_inline (shell_builder (new_uuid ex_kenv) ex_build) = Done ?b"
    by (simp add: script_source_def ex_spec_inline_def)
  obtain desired where h3: "builder_Build ex_kenv ?b = Inr desired"
    and k: "job_Namespace desired = ''forge-core''" "job_Name desired = ''ubuntu-shell''"
    by (simp add: ex_kenv_def ex_Build_def WithScriptToRun_def shell_builder_def ex_build_def ForgeCoreNamespace_def)
  have h4: "CreateOrUpdate ex_kenv empty_cluster desired
              = ((OperationResultCreated, None),
                 empty_cluster\<lparr>jobs := (jobs empty_cluster)((''forge-core'', ''ubuntu-shell'') \<mapsto> desired)\<rparr>)"
    by (simp add: CreateOrUpdate_def k ex_kenv_def empty_cluster_def)
  from Reconcile_apply_succeeds [OF h1 h2 h3 h4] h1 show ?thesis by auto
qed

section \<open>Properties of the job status watcher\<close>


lemma terminated_of_names: "fst ` set (terminated_of ss) \<subseteq> set (map cs_Name ss)"
  by (auto simp: terminated_of_def split: option.splits)








text \<open>The watcher hands a job whose first condition is \<open>Failed\<close> to the failure path.\<close>

lemma reconcileJobs_failed:
  assumes "get_fault env = None" "jobs cl req = Some job" "job_Conditions job = JobFailed # others"
  shows "reconcileJobs env cl req = processFailedScanJob env cl job"
  using assms by (simp add: reconcileJobs_def)





end
